theory Spec2Isabelle
  imports Main
begin

section \<open>The "on_device" annotation call of src/relay/op/memory/on_device.cc\<close>

subsection \<open>Data model\<close>

text \<open>
  Modelled from the spec: the placement scope \<^verbatim>\<open>SEScope\<close> is declared in a header outside
  this file. The spec describes it as a device kind, a device index
  and an optional memory-scope tag, plus one distinguished fully unconstrained value that
  equals only itself; equality is structural.
\<close>

datatype SEScope =
    FullyUnconstrained
  | SEScope string int "string option"

definition IsFullyUnconstrained :: "SEScope \<Rightarrow> bool" where
  "IsFullyUnconstrained s = (s = FullyUnconstrained)"

text \<open>
  A source span: source name, line and column; \<open>None\<close> is the null span.
\<close>

type_synonym Span = "(string \<times> nat \<times> nat) option"

text \<open>
  The attributes of a call. \<open>NullAttrs\<close> is the undefined attributes reference,
  \<open>OnDeviceAttrs se_scope constrain_result constrain_body\<close> the attributes node registered
  at line 39, and \<open>OtherAttrs\<close> stands for the attribute nodes of every other operator.
\<close>

datatype Attrs =
    NullAttrs
  | OnDeviceAttrs SEScope bool bool
  | OtherAttrs string

text \<open>
  Modelled from the spec: the attribute dictionary of a function and its helpers
  \<^verbatim>\<open>WithAttrs\<close> and \<^verbatim>\<open>GetAttr\<close> are declared outside this file. The spec
  describes the placement metadata as optional side data of a function value, a
  parameter-scope list and a result scope, whose absence means unconstrained. The two
  fields below are the entries under the keys \<^verbatim>\<open>kParamSEScopes\<close> and
  \<^verbatim>\<open>kResultSEScope\<close>; \<open>None\<close> is a missing key.
\<close>

record DictAttrs =
  param_se_scopes :: "SEScope list option"
  result_se_scope :: "SEScope option"

text \<open>
  Modelled from the spec: the expression node classes are declared outside this file.
  The datatype has one constructor for each node kind \<^verbatim>\<open>MaybeOnDevice\<close> tests for,
  and for the other expression kinds of the IR, which all take its last branch.
  An operator is a registry singleton and carries no span. A call holds its operator, its
  arguments, its attributes, its type arguments and its span.
\<close>

datatype Expr =
    ConstantNode int Span
  | TupleNode "Expr list" Span
  | is_VarNode: VarNode string Span
  | is_GlobalVarNode: GlobalVarNode string Span
  | is_FunctionNode: FunctionNode Function
  | CallNode Expr "Expr list" Attrs "string list" Span
  | LetNode string Expr Expr Span
  | IfNode Expr Expr Expr Span
  | is_OpNode: OpNode string
  | TupleGetItemNode Expr nat Span
  | RefCreateNode Expr Span
  | RefReadNode Expr Span
  | RefWriteNode Expr Expr Span
  | is_ConstructorNode: ConstructorNode string Span
and Function =
    Function (params: "string list") (fbody: Expr) (attrs: DictAttrs) (fspan: Span)

fun span_of :: "Expr \<Rightarrow> Span" where
  "span_of (ConstantNode _ sp) = sp"
| "span_of (TupleNode _ sp) = sp"
| "span_of (VarNode _ sp) = sp"
| "span_of (GlobalVarNode _ sp) = sp"
| "span_of (FunctionNode f) = fspan f"
| "span_of (CallNode _ _ _ _ sp) = sp"
| "span_of (LetNode _ _ _ sp) = sp"
| "span_of (IfNode _ _ _ sp) = sp"
| "span_of (OpNode _) = None"
| "span_of (TupleGetItemNode _ _ sp) = sp"
| "span_of (RefCreateNode _ sp) = sp"
| "span_of (RefReadNode _ sp) = sp"
| "span_of (RefWriteNode _ _ sp) = sp"
| "span_of (ConstructorNode _ sp) = sp"

text \<open>
  Modelled from the spec: the struct \<^verbatim>\<open>OnDeviceProps\<close> that \<^verbatim>\<open>GetOnDeviceProps\<close>
  returns is declared outside this file. It holds the four fields of an annotation; the
  value returned for a node that is not an annotation (\<^verbatim>\<open>return {}\<close>, lines 131 and 138)
  is the distinguished result with an undefined body, which line 79 tests for, the fully
  unconstrained scope and both flags false.
\<close>

record OnDeviceProps =
  body :: "Expr option"
  se_scope :: SEScope
  constrain_result :: bool
  constrain_body :: bool

definition no_props :: OnDeviceProps where
  "no_props = \<lparr>body = None, se_scope = FullyUnconstrained,
                constrain_result = False, constrain_body = False\<rparr>"

text \<open>
  Every failed \<^verbatim>\<open>ICHECK\<close> of the file is fatal; each is one error value, named after the
  line that raises it.
\<close>

datatype error =
    UnconstrainedScopeWithConstraint
  | ResultBodyScopesDiffer
  | IntermediateScopesDiffer
  | OnDeviceExpectsOneArgument
  | OnDeviceRequiresAttributes
  | OnDeviceRequiresOnDeviceAttrs
  | ParamIndexOutOfRange nat nat
  | ParamsDoNotMatchArity nat nat

text \<open>
  The two checks of nested calls (lines 91 and 99) report that two constraints name
  different scopes.
\<close>

fun placement_contradiction :: "error \<Rightarrow> bool" where
  "placement_contradiction ResultBodyScopesDiffer = True"
| "placement_contradiction IntermediateScopesDiffer = True"
| "placement_contradiction _ = False"

subsection \<open>Building and decomposing the annotation\<close>

definition OnDeviceOp :: Expr where
  "OnDeviceOp = OpNode ''on_device''"

definition OnDevice :: "Expr \<Rightarrow> SEScope \<Rightarrow> bool \<Rightarrow> bool \<Rightarrow> error + Expr" where
  "OnDevice b s cr cb =
     (if (\<not> cr \<and> \<not> cb) \<or> \<not> IsFullyUnconstrained s
      then Inr (CallNode OnDeviceOp [b]
                  (OnDeviceAttrs (if cr \<or> cb then s else FullyUnconstrained) cr cb)
                  [] (span_of b))
      else Inl UnconstrainedScopeWithConstraint)"

text \<open>The overload of \<^verbatim>\<open>GetOnDeviceProps\<close> on a call node, given the call's fields.\<close>

definition GetOnDeviceProps_call :: "Expr \<Rightarrow> Expr list \<Rightarrow> Attrs \<Rightarrow> error + OnDeviceProps" where
  "GetOnDeviceProps_call opr args at =
     (if opr = OnDeviceOp then
        (if length args \<noteq> 1 then Inl OnDeviceExpectsOneArgument
         else case at of
             NullAttrs \<Rightarrow> Inl OnDeviceRequiresAttributes
           | OtherAttrs _ \<Rightarrow> Inl OnDeviceRequiresOnDeviceAttrs
           | OnDeviceAttrs s cr cb \<Rightarrow>
               Inr \<lparr>body = Some (args ! 0), se_scope = s,
                    constrain_result = cr, constrain_body = cb\<rparr>)
      else Inr no_props)"

definition GetOnDeviceProps :: "Expr \<Rightarrow> error + OnDeviceProps" where
  "GetOnDeviceProps e =
     (case e of
        CallNode opr args at _ _ \<Rightarrow> GetOnDeviceProps_call opr args at
      | _ \<Rightarrow> Inr no_props)"

subsection \<open>The merge\<close>

definition MaybeOnDevice :: "Expr \<Rightarrow> SEScope \<Rightarrow> bool \<Rightarrow> bool \<Rightarrow> error + Expr" where
  "MaybeOnDevice b s cr cb =
     (if IsFullyUnconstrained s then Inr b
      else if is_OpNode b \<or> is_ConstructorNode b then Inr b
      else if is_GlobalVarNode b \<or> is_VarNode b then Inr b
      else if is_FunctionNode b then Inr b
      else case GetOnDeviceProps b of
          Inl e \<Rightarrow> Inl e
        | Inr props \<Rightarrow>
            (case body props of
               Some pbody \<Rightarrow>
                 (let inner = se_scope props;
                      outer = s;
                      constrain_outer = cr;
                      constrain_inner = constrain_body props
                  in if constrain_outer \<and> constrain_inner \<and> inner \<noteq> outer
                     then Inl ResultBodyScopesDiffer
                     else
                       (let constrain_middle_via_outer = cb;
                            constrain_middle_via_inner = constrain_result props
                        in if constrain_middle_via_outer \<and> constrain_middle_via_inner
                                \<and> inner \<noteq> outer
                           then Inl IntermediateScopesDiffer
                           else OnDevice pbody
                                  (if constrain_inner \<or> constrain_outer then outer else inner)
                                  constrain_outer constrain_inner))
             | None \<Rightarrow> OnDevice b s cr cb))"

subsection \<open>Placement metadata of functions\<close>

text \<open>
  Modelled from the spec: \<^verbatim>\<open>WithAttrs\<close> returns a copy of the function whose attribute
  dictionary holds the given entries; the input is not changed and its other fields are
  kept.
\<close>

definition FunctionOnDevice :: "Function \<Rightarrow> SEScope list \<Rightarrow> SEScope \<Rightarrow> Function" where
  "FunctionOnDevice f param_scopes result_scope =
     Function (params f) (fbody f)
       ((attrs f)\<lparr>param_se_scopes := Some param_scopes, result_se_scope := Some result_scope\<rparr>)
       (fspan f)"

definition MaybeFunctionOnDevice :: "Function \<Rightarrow> SEScope list \<Rightarrow> SEScope \<Rightarrow> Function" where
  "MaybeFunctionOnDevice f param_scopes result_scope =
     (if list_all IsFullyUnconstrained param_scopes \<and> IsFullyUnconstrained result_scope
      then f
      else FunctionOnDevice f param_scopes result_scope)"

definition GetFunctionResultSEScope :: "Function \<Rightarrow> SEScope" where
  "GetFunctionResultSEScope f =
     (case result_se_scope (attrs f) of
        Some s \<Rightarrow> s
      | None \<Rightarrow> FullyUnconstrained)"

definition GetFunctionParamSEScope :: "Function \<Rightarrow> nat \<Rightarrow> error + SEScope" where
  "GetFunctionParamSEScope f i =
     (if \<not> i < length (params f) then Inl (ParamIndexOutOfRange i (length (params f)))
      else case param_se_scopes (attrs f) of
          None \<Rightarrow> Inr FullyUnconstrained
        | Some arr \<Rightarrow>
            if length arr \<noteq> length (params f)
            then Inl (ParamsDoNotMatchArity (length arr) (length (params f)))
            else Inr (arr ! i))"

text \<open>
  The node kinds that \<^verbatim>\<open>MaybeOnDevice\<close> returns unchanged (lines 65 to 77), as one
  predicate for the statements below.
\<close>

definition device_polymorphic :: "Expr \<Rightarrow> bool" where
  "device_polymorphic b =
     (is_OpNode b \<or> is_ConstructorNode b \<or> is_GlobalVarNode b \<or> is_VarNode b
        \<or> is_FunctionNode b)"

section \<open>Properties\<close>

subsection \<open>Auxiliary facts\<close>

lemma GetOnDeviceProps_annotation:
  assumes "GetOnDeviceProps b = Inr props" and "body props = Some ib"
  shows "\<exists>targs sp. b = CallNode OnDeviceOp [ib]
            (OnDeviceAttrs (se_scope props) (constrain_result props) (constrain_body props))
            targs sp"
proof (cases b)
  case (CallNode opr args at targs sp)
  with assms have c: "GetOnDeviceProps_call opr args at = Inr props"
    by (simp add: GetOnDeviceProps_def)
  show ?thesis
  proof (cases "opr = OnDeviceOp")
    case False
    with c assms(2) show ?thesis
      by (auto simp: GetOnDeviceProps_call_def no_props_def)
  next
    case True
    with c have len: "length args = 1"
      by (simp add: GetOnDeviceProps_call_def split: if_splits)
    then obtain a where args: "args = [a]"
      by (cases args) auto
    from c True args assms(2) show ?thesis using CallNode
      by (cases at) (auto simp: GetOnDeviceProps_call_def)
  qed
qed (use assms in \<open>auto simp: GetOnDeviceProps_def no_props_def\<close>)

lemma GetOnDeviceProps_on_device_call [simp]:
  "GetOnDeviceProps (CallNode OnDeviceOp [ib] (OnDeviceAttrs t a c) targs sp)
     = Inr \<lparr>body = Some ib, se_scope = t, constrain_result = a, constrain_body = c\<rparr>"
  by (simp add: GetOnDeviceProps_def GetOnDeviceProps_call_def)

lemma MaybeOnDevice_on_device_call:
  assumes "\<not> IsFullyUnconstrained s"
  shows "MaybeOnDevice (CallNode OnDeviceOp [ib] (OnDeviceAttrs t a c) targs sp) s cr cb =
     (if cr \<and> c \<and> t \<noteq> s then Inl ResultBodyScopesDiffer
      else if cb \<and> a \<and> t \<noteq> s then Inl IntermediateScopesDiffer
      else Inr (CallNode OnDeviceOp [ib]
                  (OnDeviceAttrs (if cr \<or> c then s else FullyUnconstrained) cr c)
                  [] (span_of ib)))"
  using assms by (simp add: MaybeOnDevice_def OnDevice_def Let_def)

lemma MaybeOnDevice_plain:
  assumes "\<not> IsFullyUnconstrained s"
    and "\<not> is_OpNode b" "\<not> is_ConstructorNode b" "\<not> is_GlobalVarNode b"
        "\<not> is_VarNode b" "\<not> is_FunctionNode b"
    and "GetOnDeviceProps b = Inr no_props"
  shows "MaybeOnDevice b s cr cb =
     Inr (CallNode OnDeviceOp [b]
            (OnDeviceAttrs (if cr \<or> cb then s else FullyUnconstrained) cr cb) [] (span_of b))"
  using assms by (simp add: MaybeOnDevice_def OnDevice_def no_props_def)

lemma MaybeOnDevice_again:
  assumes "MaybeOnDevice x s cr cb = Inr n"
  shows "MaybeOnDevice n s cr cb = Inr n"
proof (cases "IsFullyUnconstrained s \<or> is_OpNode x \<or> is_ConstructorNode x
                \<or> is_GlobalVarNode x \<or> is_VarNode x \<or> is_FunctionNode x")
  case True
  with assms have "n = x"
    by (auto simp: MaybeOnDevice_def split: if_splits)
  with assms show ?thesis by simp
next
  case False
  then have conc: "\<not> IsFullyUnconstrained s" by simp
  from False assms obtain props where p: "GetOnDeviceProps x = Inr props"
    by (cases "GetOnDeviceProps x") (auto simp: MaybeOnDevice_def)
  show ?thesis
  proof (cases "body props")
    case None
    with False p assms
    have "n = CallNode OnDeviceOp [x]
            (OnDeviceAttrs (if cr \<or> cb then s else FullyUnconstrained) cr cb) [] (span_of x)"
      by (auto simp: MaybeOnDevice_def OnDevice_def)
    then show ?thesis
      using conc by (simp add: MaybeOnDevice_on_device_call)
  next
    case (Some ib)
    from GetOnDeviceProps_annotation [OF p Some] obtain targs sp where
      x: "x = CallNode OnDeviceOp [ib]
            (OnDeviceAttrs (se_scope props) (constrain_result props) (constrain_body props))
            targs sp"
      by blast
    from assms have "n = CallNode OnDeviceOp [ib]
            (OnDeviceAttrs (if cr \<or> constrain_body props then s else FullyUnconstrained)
               cr (constrain_body props)) [] (span_of ib)"
      unfolding x MaybeOnDevice_on_device_call [OF conc]
      by (auto split: if_splits)
    then show ?thesis
      using conc by (simp add: MaybeOnDevice_on_device_call)
  qed
qed

subsection \<open>The constructor\<close>

text \<open>
  C10. \<^verbatim>\<open>OnDevice\<close> fails when a flag is set and the scope is fully unconstrained, and
  succeeds otherwise. The node it builds decomposes into the given body and flags, and its
  stored scope is concrete if and only if a flag is set; with a flag set it is the given
  scope, with none it is the fully unconstrained scope.
\<close>

theorem OnDevice_scope_invariant:
  "((cr \<or> cb) \<and> IsFullyUnconstrained s \<longrightarrow>
       OnDevice b s cr cb = Inl UnconstrainedScopeWithConstraint)
   \<and> (\<not> ((cr \<or> cb) \<and> IsFullyUnconstrained s) \<longrightarrow> (\<exists>n. OnDevice b s cr cb = Inr n))
   \<and> (\<forall>n. OnDevice b s cr cb = Inr n \<longrightarrow>
        (\<exists>sc. GetOnDeviceProps n =
                 Inr \<lparr>body = Some b, se_scope = sc,
                      constrain_result = cr, constrain_body = cb\<rparr>
            \<and> (\<not> IsFullyUnconstrained sc \<longleftrightarrow> cr \<or> cb)
            \<and> (cr \<or> cb \<longrightarrow> sc = s)))"
  by (auto simp: OnDevice_def IsFullyUnconstrained_def)

text \<open>C10 at concrete inputs.\<close>

theorem OnDevice_scope_invariant_witness:
  "OnDevice (ConstantNode 4 None) FullyUnconstrained True False
     = Inl UnconstrainedScopeWithConstraint
   \<and> (\<exists>n. OnDevice (ConstantNode 4 None) (SEScope ''cpu'' 0 None) False False = Inr n
        \<and> GetOnDeviceProps n =
            Inr \<lparr>body = Some (ConstantNode 4 None), se_scope = FullyUnconstrained,
                 constrain_result = False, constrain_body = False\<rparr>)
   \<and> (\<exists>n. OnDevice (ConstantNode 4 None) (SEScope ''cpu'' 0 None) False True = Inr n
        \<and> GetOnDeviceProps n =
            Inr \<lparr>body = Some (ConstantNode 4 None), se_scope = SEScope ''cpu'' 0 None,
                 constrain_result = False, constrain_body = True\<rparr>)"
  using OnDevice_scope_invariant [of True False FullyUnconstrained "ConstantNode 4 None"]
    OnDevice_scope_invariant [of False False "SEScope ''cpu'' 0 None" "ConstantNode 4 None"]
    OnDevice_scope_invariant [of False True "SEScope ''cpu'' 0 None" "ConstantNode 4 None"]
  by (auto simp: IsFullyUnconstrained_def)

subsection \<open>Bodies that are returned unchanged\<close>

text \<open>
  C7. Annotating with the fully unconstrained scope and both flags false returns the
  expression unchanged, for every expression.
\<close>

theorem MaybeOnDevice_unconstrained_noop:
  "MaybeOnDevice e FullyUnconstrained False False = Inr e"
  by (simp add: MaybeOnDevice_def IsFullyUnconstrained_def)

text \<open>C7 at a concrete input.\<close>

theorem MaybeOnDevice_unconstrained_noop_witness:
  "MaybeOnDevice (ConstantNode 7 None) FullyUnconstrained False False
     = Inr (ConstantNode 7 None)"
  using MaybeOnDevice_unconstrained_noop [of "ConstantNode 7 None"] by simp

text \<open>
  C8. A bare operator, constructor, global variable, local variable or function value is
  returned unchanged, for every scope and both flags.
\<close>

theorem MaybeOnDevice_device_polymorphic_unchanged:
  "MaybeOnDevice (OpNode name) s cr cb = Inr (OpNode name)
   \<and> MaybeOnDevice (ConstructorNode name sp) s cr cb = Inr (ConstructorNode name sp)
   \<and> MaybeOnDevice (GlobalVarNode name sp) s cr cb = Inr (GlobalVarNode name sp)
   \<and> MaybeOnDevice (VarNode name sp) s cr cb = Inr (VarNode name sp)
   \<and> MaybeOnDevice (FunctionNode f) s cr cb = Inr (FunctionNode f)"
  by (simp add: MaybeOnDevice_def)

text \<open>C8 at concrete inputs: an operator and a variable.\<close>

theorem MaybeOnDevice_device_polymorphic_unchanged_witness:
  "MaybeOnDevice (OpNode ''add'') (SEScope ''cpu'' 0 None) True False = Inr (OpNode ''add'')
   \<and> MaybeOnDevice (VarNode ''x'' None) (SEScope ''cpu'' 0 None) False True
       = Inr (VarNode ''x'' None)"
  using MaybeOnDevice_device_polymorphic_unchanged
          [where name = "''add''" and s = "SEScope ''cpu'' 0 None" and cr = True and cb = False]
        MaybeOnDevice_device_polymorphic_unchanged
          [where name = "''x''" and sp = None and s = "SEScope ''cpu'' 0 None"
             and cr = False and cb = True]
  by simp

subsection \<open>Nested annotations\<close>

text \<open>
  C1 (as the code has it). Let the body be an annotation already. With a fully
  unconstrained outer scope the body is returned unchanged. With a concrete outer scope:
  if the outer \<open>constrain_body\<close> and the inner \<open>constrain_result\<close> are both set and the
  scopes differ, the call fails with a placement contradiction; if both are set and the
  scopes agree, it succeeds; if at most one of them is set, the check of the middle value
  (line 99) never fails, and the call succeeds exactly when the check of line 91 passes,
  that is unless the outer \<open>constrain_result\<close> and the inner \<open>constrain_body\<close> are both
  set with different scopes, where it fails with the error of line 91.
\<close>

theorem MaybeOnDevice_nested_middle_value:
  assumes "GetOnDeviceProps b = Inr props" and "body props = Some ib"
  shows "(IsFullyUnconstrained s \<longrightarrow> MaybeOnDevice b s cr cb = Inr b)
       \<and> (\<not> IsFullyUnconstrained s \<longrightarrow>
            (cb \<and> constrain_result props \<and> se_scope props \<noteq> s \<longrightarrow>
               (\<exists>e. MaybeOnDevice b s cr cb = Inl e \<and> placement_contradiction e))
          \<and> (cb \<and> constrain_result props \<and> se_scope props = s \<longrightarrow>
               (\<exists>n. MaybeOnDevice b s cr cb = Inr n))
          \<and> (\<not> (cb \<and> constrain_result props) \<longrightarrow>
               MaybeOnDevice b s cr cb \<noteq> Inl IntermediateScopesDiffer
               \<and> ((\<exists>n. MaybeOnDevice b s cr cb = Inr n)
                    \<longleftrightarrow> \<not> (cr \<and> constrain_body props \<and> se_scope props \<noteq> s))
               \<and> (cr \<and> constrain_body props \<and> se_scope props \<noteq> s \<longrightarrow>
                    MaybeOnDevice b s cr cb = Inl ResultBodyScopesDiffer)))"
proof (cases "IsFullyUnconstrained s")
  case True
  then show ?thesis by (simp add: MaybeOnDevice_def)
next
  case False
  from GetOnDeviceProps_annotation [OF assms] obtain targs sp where
    b: "b = CallNode OnDeviceOp [ib]
          (OnDeviceAttrs (se_scope props) (constrain_result props) (constrain_body props))
          targs sp"
    by blast
  show ?thesis
    unfolding b MaybeOnDevice_on_device_call [OF False] using False by auto
qed

text \<open>
  C1 at concrete inputs: an inner annotation that constrains its result to cpu, wrapped
  with \<open>constrain_body\<close> on accel (fails), with \<open>constrain_body\<close> on cpu (succeeds), and
  with \<open>constrain_result\<close> only on accel (one source, succeeds).
\<close>

theorem MaybeOnDevice_nested_middle_value_witness:
  "GetOnDeviceProps (CallNode OnDeviceOp [ConstantNode 1 None]
        (OnDeviceAttrs (SEScope ''cpu'' 0 None) True False) [] None)
     = Inr \<lparr>body = Some (ConstantNode 1 None), se_scope = SEScope ''cpu'' 0 None,
            constrain_result = True, constrain_body = False\<rparr>
   \<and> \<not> IsFullyUnconstrained (SEScope ''accel'' 0 None)
   \<and> (\<exists>e. MaybeOnDevice (CallNode OnDeviceOp [ConstantNode 1 None]
              (OnDeviceAttrs (SEScope ''cpu'' 0 None) True False) [] None)
              (SEScope ''accel'' 0 None) False True = Inl e
          \<and> placement_contradiction e)
   \<and> (\<exists>n. MaybeOnDevice (CallNode OnDeviceOp [ConstantNode 1 None]
              (OnDeviceAttrs (SEScope ''cpu'' 0 None) True False) [] None)
              (SEScope ''cpu'' 0 None) False True = Inr n)
   \<and> (\<exists>n. MaybeOnDevice (CallNode OnDeviceOp [ConstantNode 1 None]
              (OnDeviceAttrs (SEScope ''cpu'' 0 None) True False) [] None)
              (SEScope ''accel'' 0 None) True False = Inr n)"
proof -
  let ?i = "CallNode OnDeviceOp [ConstantNode 1 None]
              (OnDeviceAttrs (SEScope ''cpu'' 0 None) True False) [] None"
  let ?p = "\<lparr>body = Some (ConstantNode 1 None), se_scope = SEScope ''cpu'' 0 None,
             constrain_result = True, constrain_body = False\<rparr>"
  have h1: "GetOnDeviceProps ?i = Inr ?p" by simp
  have h2: "body ?p = Some (ConstantNode 1 None)" by simp
  have h3: "\<not> IsFullyUnconstrained (SEScope ''accel'' 0 None)"
    by (simp add: IsFullyUnconstrained_def)
  have h4: "\<not> IsFullyUnconstrained (SEScope ''cpu'' 0 None)"
    by (simp add: IsFullyUnconstrained_def)
  show ?thesis
    using h1 h3 h4
      MaybeOnDevice_nested_middle_value
        [OF h1 h2, where s = "SEScope ''accel'' 0 None" and cr = False and cb = True]
      MaybeOnDevice_nested_middle_value
        [OF h1 h2, where s = "SEScope ''cpu'' 0 None" and cr = False and cb = True]
      MaybeOnDevice_nested_middle_value
        [OF h1 h2, where s = "SEScope ''accel'' 0 None" and cr = True and cb = False]
    by simp
qed

text \<open>
  C1 as stated fails. The inner annotation constrains only its body, to cpu, and the outer
  call constrains only its result, to accel: neither source of the middle value is active,
  and the call fails at line 91. And with a fully unconstrained outer scope, both sources
  set and different scopes, the call returns the body.
\<close>

theorem nested_no_middle_source_fails:
  "GetOnDeviceProps (CallNode OnDeviceOp [ConstantNode 1 None]
        (OnDeviceAttrs (SEScope ''cpu'' 0 None) False True) [] None)
     = Inr \<lparr>body = Some (ConstantNode 1 None), se_scope = SEScope ''cpu'' 0 None,
            constrain_result = False, constrain_body = True\<rparr>
   \<and> MaybeOnDevice (CallNode OnDeviceOp [ConstantNode 1 None]
        (OnDeviceAttrs (SEScope ''cpu'' 0 None) False True) [] None)
        (SEScope ''accel'' 0 None) True False
     = Inl ResultBodyScopesDiffer
   \<and> MaybeOnDevice (CallNode OnDeviceOp [ConstantNode 1 None]
        (OnDeviceAttrs (SEScope ''cpu'' 0 None) True False) [] None)
        FullyUnconstrained False True
     = Inr (CallNode OnDeviceOp [ConstantNode 1 None]
        (OnDeviceAttrs (SEScope ''cpu'' 0 None) True False) [] None)"
  by (simp add: MaybeOnDevice_on_device_call IsFullyUnconstrained_def MaybeOnDevice_def)

text \<open>
  C2 (as the code has it). The outer \<open>constrain_result\<close> and the inner \<open>constrain_body\<close>
  are checked against each other (lines 90 to 93): when both are set on a nested call with
  a concrete outer scope, the merge succeeds exactly when the outer scope equals the inner
  scope, and fails with a placement contradiction otherwise, whatever the two sources of
  the middle value are.
\<close>

theorem MaybeOnDevice_nested_result_body:
  assumes "GetOnDeviceProps b = Inr props" and "body props = Some ib"
    and "cr" and "constrain_body props"
  shows "MaybeOnDevice b s cr cb =
           (if IsFullyUnconstrained s then Inr b
            else if se_scope props = s
            then Inr (CallNode OnDeviceOp [ib] (OnDeviceAttrs s True True) [] (span_of ib))
            else Inl ResultBodyScopesDiffer)"
proof (cases "IsFullyUnconstrained s")
  case True
  then show ?thesis by (simp add: MaybeOnDevice_def)
next
  case False
  from GetOnDeviceProps_annotation [OF assms(1,2)] obtain targs sp where
    b: "b = CallNode OnDeviceOp [ib]
          (OnDeviceAttrs (se_scope props) (constrain_result props) (constrain_body props))
          targs sp"
    by blast
  show ?thesis
    unfolding b MaybeOnDevice_on_device_call [OF False] using False assms(3,4) by simp
qed

text \<open>C2 at concrete inputs: equal scopes merge, different scopes fail.\<close>

theorem MaybeOnDevice_nested_result_body_witness:
  "MaybeOnDevice (CallNode OnDeviceOp [ConstantNode 2 None]
        (OnDeviceAttrs (SEScope ''cpu'' 0 None) False True) [] None)
        (SEScope ''cpu'' 0 None) True False
     = Inr (CallNode OnDeviceOp [ConstantNode 2 None]
        (OnDeviceAttrs (SEScope ''cpu'' 0 None) True True) [] None)
   \<and> MaybeOnDevice (CallNode OnDeviceOp [ConstantNode 2 None]
        (OnDeviceAttrs (SEScope ''cpu'' 0 None) False True) [] None)
        (SEScope ''gpu'' 1 None) True False
     = Inl ResultBodyScopesDiffer"
proof -
  let ?i = "CallNode OnDeviceOp [ConstantNode 2 None]
              (OnDeviceAttrs (SEScope ''cpu'' 0 None) False True) [] None"
  let ?p = "\<lparr>body = Some (ConstantNode 2 None), se_scope = SEScope ''cpu'' 0 None,
             constrain_result = False, constrain_body = True\<rparr>"
  have h1: "GetOnDeviceProps ?i = Inr ?p" by simp
  have h2: "body ?p = Some (ConstantNode 2 None)" by simp
  have h3: "\<not> IsFullyUnconstrained (SEScope ''cpu'' 0 None)"
    by (simp add: IsFullyUnconstrained_def)
  have h4: "\<not> IsFullyUnconstrained (SEScope ''gpu'' 1 None)"
    by (simp add: IsFullyUnconstrained_def)
  have h5: "constrain_body ?p" by simp
  show ?thesis
    using h3 h4 MaybeOnDevice_nested_result_body [OF h1 h2 TrueI h5, of "SEScope ''cpu'' 0 None" False]
      MaybeOnDevice_nested_result_body [OF h1 h2 TrueI h5, of "SEScope ''gpu'' 1 None" False]
    by simp
qed

text \<open>
  C2 as stated fails: outer \<open>constrain_result\<close> and inner \<open>constrain_body\<close> are set, the
  inner \<open>constrain_result\<close> is not, so the two sources of the middle value are not both
  active; the scopes differ, and the merge fails.
\<close>

theorem nested_result_body_checked:
  "MaybeOnDevice (CallNode OnDeviceOp [ConstantNode 2 None]
        (OnDeviceAttrs (SEScope ''cpu'' 0 None) False True) [] None)
        (SEScope ''gpu'' 1 None) True True
     = Inl ResultBodyScopesDiffer"
  by (simp add: MaybeOnDevice_on_device_call IsFullyUnconstrained_def)

text \<open>
  C3 (as the code has it). When \<^verbatim>\<open>MaybeOnDevice\<close> collapses a nested annotation, the
  result is the one annotation that the constructor \<^verbatim>\<open>OnDevice\<close> builds over the inner
  annotation's body, with the outer \<open>constrain_result\<close> flag and the inner
  \<open>constrain_body\<close> flag (line 103). The constructor is called directly and the merge is
  not entered again, so the inner body is kept as it is, also when it is an annotation.
\<close>

theorem MaybeOnDevice_nested_collapse:
  assumes "GetOnDeviceProps b = Inr props" and "body props = Some ib"
    and "\<not> IsFullyUnconstrained s"
    and "MaybeOnDevice b s cr cb = Inr n"
  shows "OnDevice ib (if constrain_body props \<or> cr then s else se_scope props)
           cr (constrain_body props) = Inr n
       \<and> GetOnDeviceProps n =
           Inr \<lparr>body = Some ib,
                se_scope = (if cr \<or> constrain_body props then s else FullyUnconstrained),
                constrain_result = cr, constrain_body = constrain_body props\<rparr>"
proof -
  from GetOnDeviceProps_annotation [OF assms(1,2)] obtain targs sp where
    b: "b = CallNode OnDeviceOp [ib]
          (OnDeviceAttrs (se_scope props) (constrain_result props) (constrain_body props))
          targs sp"
    by blast
  from assms(4) have n: "n = CallNode OnDeviceOp [ib]
          (OnDeviceAttrs (if cr \<or> constrain_body props then s else FullyUnconstrained)
             cr (constrain_body props)) [] (span_of ib)"
    unfolding b MaybeOnDevice_on_device_call [OF assms(3)]
    by (auto split: if_splits)
  show ?thesis
    using assms(3) by (auto simp: n OnDevice_def)
qed

text \<open>C3 at a concrete input.\<close>

theorem MaybeOnDevice_nested_collapse_witness:
  "MaybeOnDevice (CallNode OnDeviceOp [ConstantNode 3 None]
        (OnDeviceAttrs (SEScope ''cpu'' 0 None) True True) [] None)
        (SEScope ''cpu'' 0 None) False True
     = Inr (CallNode OnDeviceOp [ConstantNode 3 None]
        (OnDeviceAttrs (SEScope ''cpu'' 0 None) False True) [] None)
   \<and> OnDevice (ConstantNode 3 None) (SEScope ''cpu'' 0 None) False True
     = Inr (CallNode OnDeviceOp [ConstantNode 3 None]
        (OnDeviceAttrs (SEScope ''cpu'' 0 None) False True) [] None)
   \<and> GetOnDeviceProps (CallNode OnDeviceOp [ConstantNode 3 None]
        (OnDeviceAttrs (SEScope ''cpu'' 0 None) False True) [] None)
     = Inr \<lparr>body = Some (ConstantNode 3 None), se_scope = SEScope ''cpu'' 0 None,
            constrain_result = False, constrain_body = True\<rparr>"
proof -
  let ?i = "CallNode OnDeviceOp [ConstantNode 3 None]
              (OnDeviceAttrs (SEScope ''cpu'' 0 None) True True) [] None"
  let ?p = "\<lparr>body = Some (ConstantNode 3 None), se_scope = SEScope ''cpu'' 0 None,
             constrain_result = True, constrain_body = True\<rparr>"
  let ?n = "CallNode OnDeviceOp [ConstantNode 3 None]
              (OnDeviceAttrs (SEScope ''cpu'' 0 None) False True) [] None"
  have h1: "GetOnDeviceProps ?i = Inr ?p" by simp
  have h2: "body ?p = Some (ConstantNode 3 None)" by simp
  have h3: "\<not> IsFullyUnconstrained (SEScope ''cpu'' 0 None)"
    by (simp add: IsFullyUnconstrained_def)
  have h4: "MaybeOnDevice ?i (SEScope ''cpu'' 0 None) False True = Inr ?n"
    using h3 by (simp add: MaybeOnDevice_on_device_call)
  show ?thesis
    using h4 MaybeOnDevice_nested_collapse [OF h1 h2 h3 h4] by simp
qed

text \<open>
  C3 as stated fails. The constructor builds an annotation of an annotation of a constant;
  annotating it once more gives an annotation whose body is still an annotation, not one
  annotation over the innermost body.
\<close>

theorem triple_nesting_not_flattened:
  "OnDevice (ConstantNode 3 None) (SEScope ''cpu'' 0 None) True False
     = Inr (CallNode OnDeviceOp [ConstantNode 3 None]
              (OnDeviceAttrs (SEScope ''cpu'' 0 None) True False) [] None)
   \<and> OnDevice (CallNode OnDeviceOp [ConstantNode 3 None]
              (OnDeviceAttrs (SEScope ''cpu'' 0 None) True False) [] None)
        (SEScope ''cpu'' 0 None) True False
     = Inr (CallNode OnDeviceOp [CallNode OnDeviceOp [ConstantNode 3 None]
              (OnDeviceAttrs (SEScope ''cpu'' 0 None) True False) [] None]
              (OnDeviceAttrs (SEScope ''cpu'' 0 None) True False) [] None)
   \<and> MaybeOnDevice (CallNode OnDeviceOp [CallNode OnDeviceOp [ConstantNode 3 None]
              (OnDeviceAttrs (SEScope ''cpu'' 0 None) True False) [] None]
              (OnDeviceAttrs (SEScope ''cpu'' 0 None) True False) [] None)
        (SEScope ''cpu'' 0 None) True False
     = Inr (CallNode OnDeviceOp [CallNode OnDeviceOp [ConstantNode 3 None]
              (OnDeviceAttrs (SEScope ''cpu'' 0 None) True False) [] None]
              (OnDeviceAttrs (SEScope ''cpu'' 0 None) True False) [] None)"
  by (simp add: MaybeOnDevice_on_device_call IsFullyUnconstrained_def OnDevice_def)

text \<open>
  C4 (as the code has it). Let \<open>x\<close> be neither device polymorphic nor an \<open>on_device\<close> call,
  and \<open>A\<close> a concrete scope. Annotating \<open>x\<close> with \<open>A\<close>, \<open>constrain_body\<close> only, succeeds.
  Annotating the result with a concrete scope \<open>B \<noteq> A\<close>, \<open>constrain_result\<close> only, fails
  with the placement contradiction of line 91. Annotating the result with \<open>A\<close>,
  \<open>constrain_result\<close> only, gives the one annotation over \<open>x\<close> with scope \<open>A\<close>.
\<close>

theorem MaybeOnDevice_contradiction_and_merge:
  assumes "\<not> device_polymorphic x" and "GetOnDeviceProps x = Inr no_props"
    and "\<not> IsFullyUnconstrained A"
  shows "\<exists>n. MaybeOnDevice x A False True = Inr n
           \<and> (\<forall>B. \<not> IsFullyUnconstrained B \<and> A \<noteq> B \<longrightarrow>
                 MaybeOnDevice n B True False = Inl ResultBodyScopesDiffer
                 \<and> placement_contradiction ResultBodyScopesDiffer)
           \<and> MaybeOnDevice n A True False
               = Inr (CallNode OnDeviceOp [x] (OnDeviceAttrs A True True) [] (span_of x))"
proof -
  from assms have n: "MaybeOnDevice x A False True
      = Inr (CallNode OnDeviceOp [x] (OnDeviceAttrs A False True) [] (span_of x))"
    by (simp add: MaybeOnDevice_plain device_polymorphic_def)
  show ?thesis
    unfolding n using assms(3) by (auto simp: MaybeOnDevice_on_device_call)
qed

text \<open>C4 at a concrete input: the empty tuple, cpu and accel.\<close>

theorem MaybeOnDevice_contradiction_and_merge_witness:
  "\<not> device_polymorphic (TupleNode [] None)
   \<and> GetOnDeviceProps (TupleNode [] None) = Inr no_props
   \<and> (\<exists>n. MaybeOnDevice (TupleNode [] None) (SEScope ''cpu'' 0 None) False True = Inr n
        \<and> MaybeOnDevice n (SEScope ''accel'' 0 None) True False = Inl ResultBodyScopesDiffer
        \<and> MaybeOnDevice n (SEScope ''cpu'' 0 None) True False
            = Inr (CallNode OnDeviceOp [TupleNode [] None]
                     (OnDeviceAttrs (SEScope ''cpu'' 0 None) True True) [] None))"
proof -
  have h1: "\<not> device_polymorphic (TupleNode [] None)"
    by (simp add: device_polymorphic_def)
  have h2: "GetOnDeviceProps (TupleNode [] None) = Inr no_props"
    by (simp add: GetOnDeviceProps_def)
  have h3: "\<not> IsFullyUnconstrained (SEScope ''cpu'' 0 None)"
    by (simp add: IsFullyUnconstrained_def)
  have h4: "\<not> IsFullyUnconstrained (SEScope ''accel'' 0 None)
              \<and> SEScope ''cpu'' 0 None \<noteq> SEScope ''accel'' 0 None"
    by (simp add: IsFullyUnconstrained_def)
  from MaybeOnDevice_contradiction_and_merge [OF h1 h2 h3] h4
  have "\<exists>n. MaybeOnDevice (TupleNode [] None) (SEScope ''cpu'' 0 None) False True = Inr n
        \<and> MaybeOnDevice n (SEScope ''accel'' 0 None) True False = Inl ResultBodyScopesDiffer
        \<and> MaybeOnDevice n (SEScope ''cpu'' 0 None) True False
            = Inr (CallNode OnDeviceOp [TupleNode [] None]
                     (OnDeviceAttrs (SEScope ''cpu'' 0 None) True True) [] None)"
    by auto
  with h1 h2 show ?thesis by blast
qed

text \<open>
  C4 as stated fails for a variable: both calls return the variable, no error is raised,
  and the result is not an annotation. It also fails for a body that is an annotation
  constraining its own result: the first call leaves an annotation that constrains
  nothing, and the second call, with another scope, succeeds.
\<close>

theorem variable_body_no_contradiction:
  "MaybeOnDevice (VarNode ''x'' None) (SEScope ''cpu'' 0 None) False True
     = Inr (VarNode ''x'' None)
   \<and> MaybeOnDevice (VarNode ''x'' None) (SEScope ''accel'' 0 None) True False
     = Inr (VarNode ''x'' None)
   \<and> MaybeOnDevice (VarNode ''x'' None) (SEScope ''cpu'' 0 None) True False
     = Inr (VarNode ''x'' None)
   \<and> GetOnDeviceProps (VarNode ''x'' None) = Inr no_props
   \<and> body no_props = None
   \<and> MaybeOnDevice (CallNode OnDeviceOp [ConstantNode 6 None]
          (OnDeviceAttrs (SEScope ''cpu'' 0 None) True False) [] None)
        (SEScope ''cpu'' 0 None) False True
     = Inr (CallNode OnDeviceOp [ConstantNode 6 None]
          (OnDeviceAttrs FullyUnconstrained False False) [] None)
   \<and> MaybeOnDevice (CallNode OnDeviceOp [ConstantNode 6 None]
          (OnDeviceAttrs FullyUnconstrained False False) [] None)
        (SEScope ''accel'' 0 None) True False
     = Inr (CallNode OnDeviceOp [ConstantNode 6 None]
          (OnDeviceAttrs (SEScope ''accel'' 0 None) True False) [] None)"
  by (simp add: MaybeOnDevice_def IsFullyUnconstrained_def GetOnDeviceProps_def no_props_def
        GetOnDeviceProps_call_def OnDevice_def)

text \<open>
  C5 (as the code has it). If \<^verbatim>\<open>MaybeOnDevice\<close> on \<open>x\<close> with scope \<open>s\<close> and flags
  \<open>cr\<close>, \<open>cb\<close> returns \<open>n\<close>, then the same request on \<open>n\<close> returns \<open>n\<close> itself: no
  second wrapping is added, and decomposing the result gives the fields of \<open>n\<close>. When \<open>s\<close>
  is fully unconstrained or \<open>x\<close> is device polymorphic, \<open>n\<close> is \<open>x\<close> itself. Otherwise \<open>n\<close>
  is an annotation with scope \<open>s\<close> (the unconstrained scope when neither of its flags is
  set) and with \<open>constrain_result = cr\<close>: over \<open>x\<close> with \<open>constrain_body = cb\<close> when \<open>x\<close>
  is not an annotation, and over the body of \<open>x\<close> with the \<open>constrain_body\<close> flag of \<open>x\<close>
  when \<open>x\<close> is an annotation.
\<close>

theorem MaybeOnDevice_rewrap_idempotent:
  assumes "MaybeOnDevice x s cr cb = Inr n"
  shows "MaybeOnDevice n s cr cb = Inr n
       \<and> (\<exists>r. MaybeOnDevice n s cr cb = Inr r \<and> GetOnDeviceProps r = GetOnDeviceProps n)
       \<and> (IsFullyUnconstrained s \<or> device_polymorphic x \<longrightarrow> n = x)
       \<and> (\<not> IsFullyUnconstrained s \<and> \<not> device_polymorphic x \<longrightarrow>
            (\<exists>ib c. n = CallNode OnDeviceOp [ib]
                       (OnDeviceAttrs (if cr \<or> c then s else FullyUnconstrained) cr c)
                       [] (span_of ib)
                \<and> GetOnDeviceProps n =
                      Inr \<lparr>body = Some ib,
                           se_scope = (if cr \<or> c then s else FullyUnconstrained),
                           constrain_result = cr, constrain_body = c\<rparr>
                \<and> (\<exists>p. GetOnDeviceProps x = Inr p
                       \<and> (body p = None \<longrightarrow> ib = x \<and> c = cb)
                       \<and> (\<forall>y. body p = Some y \<longrightarrow> ib = y \<and> c = constrain_body p))))"
proof -
  have again: "MaybeOnDevice n s cr cb = Inr n"
    using assms by (rule MaybeOnDevice_again)
  have same: "IsFullyUnconstrained s \<or> device_polymorphic x \<longrightarrow> n = x"
    using assms by (auto simp: MaybeOnDevice_def device_polymorphic_def split: if_splits)
  have wrapped: "\<exists>ib c. n = CallNode OnDeviceOp [ib]
                       (OnDeviceAttrs (if cr \<or> c then s else FullyUnconstrained) cr c)
                       [] (span_of ib)
                \<and> GetOnDeviceProps n =
                      Inr \<lparr>body = Some ib,
                           se_scope = (if cr \<or> c then s else FullyUnconstrained),
                           constrain_result = cr, constrain_body = c\<rparr>
                \<and> (\<exists>p. GetOnDeviceProps x = Inr p
                       \<and> (body p = None \<longrightarrow> ib = x \<and> c = cb)
                       \<and> (\<forall>y. body p = Some y \<longrightarrow> ib = y \<and> c = constrain_body p))"
    if conc: "\<not> IsFullyUnconstrained s" and np: "\<not> device_polymorphic x"
  proof -
    from assms conc np obtain p where p: "GetOnDeviceProps x = Inr p"
      by (cases "GetOnDeviceProps x") (auto simp: MaybeOnDevice_def device_polymorphic_def)
    show ?thesis
    proof (cases "body p")
      case None
      with p assms conc np
      have n: "n = CallNode OnDeviceOp [x]
            (OnDeviceAttrs (if cr \<or> cb then s else FullyUnconstrained) cr cb) [] (span_of x)"
        by (auto simp: MaybeOnDevice_def OnDevice_def device_polymorphic_def)
      show ?thesis
        using n p None by auto
    next
      case (Some y)
      from GetOnDeviceProps_annotation [OF p Some] obtain targs sp where
        x: "x = CallNode OnDeviceOp [y]
              (OnDeviceAttrs (se_scope p) (constrain_result p) (constrain_body p)) targs sp"
        by blast
      from assms have n: "n = CallNode OnDeviceOp [y]
            (OnDeviceAttrs (if cr \<or> constrain_body p then s else FullyUnconstrained)
               cr (constrain_body p)) [] (span_of y)"
        unfolding x MaybeOnDevice_on_device_call [OF conc]
        by (auto split: if_splits)
      show ?thesis
        using n p Some by auto
    qed
  qed
  from again same wrapped show ?thesis by blast
qed

text \<open>
  C5 at concrete inputs: a constant annotated twice on accel; a constant with the fully
  unconstrained scope and a flag set, which is returned as it is; an annotation on cpu
  that constrains its body, annotated twice on cpu with \<open>constrain_result\<close>.
\<close>

theorem MaybeOnDevice_rewrap_idempotent_witness:
  "MaybeOnDevice (ConstantNode 5 None) (SEScope ''accel'' 0 None) True False
     = Inr (CallNode OnDeviceOp [ConstantNode 5 None]
              (OnDeviceAttrs (SEScope ''accel'' 0 None) True False) [] None)
   \<and> MaybeOnDevice (CallNode OnDeviceOp [ConstantNode 5 None]
              (OnDeviceAttrs (SEScope ''accel'' 0 None) True False) [] None)
        (SEScope ''accel'' 0 None) True False
     = Inr (CallNode OnDeviceOp [ConstantNode 5 None]
              (OnDeviceAttrs (SEScope ''accel'' 0 None) True False) [] None)
   \<and> MaybeOnDevice (ConstantNode 5 None) FullyUnconstrained False True
     = Inr (ConstantNode 5 None)
   \<and> MaybeOnDevice (CallNode OnDeviceOp [ConstantNode 5 None]
              (OnDeviceAttrs (SEScope ''cpu'' 0 None) False True) [] None)
        (SEScope ''cpu'' 0 None) True False
     = Inr (CallNode OnDeviceOp [ConstantNode 5 None]
              (OnDeviceAttrs (SEScope ''cpu'' 0 None) True True) [] None)
   \<and> MaybeOnDevice (CallNode OnDeviceOp [ConstantNode 5 None]
              (OnDeviceAttrs (SEScope ''cpu'' 0 None) True True) [] None)
        (SEScope ''cpu'' 0 None) True False
     = Inr (CallNode OnDeviceOp [ConstantNode 5 None]
              (OnDeviceAttrs (SEScope ''cpu'' 0 None) True True) [] None)"
proof -
  have h0: "\<not> IsFullyUnconstrained (SEScope ''accel'' 0 None)"
    by (simp add: IsFullyUnconstrained_def)
  have h1: "MaybeOnDevice (ConstantNode 5 None) (SEScope ''accel'' 0 None) True False
     = Inr (CallNode OnDeviceOp [ConstantNode 5 None]
              (OnDeviceAttrs (SEScope ''accel'' 0 None) True False) [] None)"
    using h0 by (simp add: MaybeOnDevice_plain GetOnDeviceProps_def)
  have h2: "MaybeOnDevice (ConstantNode 5 None) FullyUnconstrained False True
     = Inr (ConstantNode 5 None)"
    by (simp add: MaybeOnDevice_def IsFullyUnconstrained_def)
  have h3: "\<not> IsFullyUnconstrained (SEScope ''cpu'' 0 None)"
    by (simp add: IsFullyUnconstrained_def)
  have h4: "MaybeOnDevice (CallNode OnDeviceOp [ConstantNode 5 None]
              (OnDeviceAttrs (SEScope ''cpu'' 0 None) False True) [] None)
        (SEScope ''cpu'' 0 None) True False
     = Inr (CallNode OnDeviceOp [ConstantNode 5 None]
              (OnDeviceAttrs (SEScope ''cpu'' 0 None) True True) [] None)"
    using h3 by (simp add: MaybeOnDevice_on_device_call)
  show ?thesis
    using h1 h2 h4
      MaybeOnDevice_rewrap_idempotent [OF h1]
      MaybeOnDevice_rewrap_idempotent [OF h2]
      MaybeOnDevice_rewrap_idempotent [OF h4]
    by simp
qed

text \<open>
  C5 as stated fails for a bare operator: the request returns the operator, applied again
  it returns the operator, which is not an annotation.
\<close>

theorem rewrap_operator_not_annotation:
  "MaybeOnDevice (OpNode ''add'') (SEScope ''cpu'' 0 None) True True = Inr (OpNode ''add'')
   \<and> GetOnDeviceProps (OpNode ''add'') = Inr no_props
   \<and> body no_props = None"
  by (simp add: MaybeOnDevice_def IsFullyUnconstrained_def GetOnDeviceProps_def no_props_def)

subsection \<open>Function placement\<close>

text \<open>
  C6. \<^verbatim>\<open>GetFunctionParamSEScope\<close> fails when the index is not below the arity; with
  the index in range it fails when a parameter-scope list is attached whose length is not
  the arity, returns the entry at the index when the attached list has the arity's length,
  and returns the fully unconstrained scope when no list is attached.
\<close>

theorem GetFunctionParamSEScope_cases:
  "(length (params f) \<le> i \<longrightarrow>
      GetFunctionParamSEScope f i = Inl (ParamIndexOutOfRange i (length (params f))))
   \<and> (i < length (params f) \<longrightarrow>
        (\<forall>arr. param_se_scopes (attrs f) = Some arr \<longrightarrow>
           (length arr \<noteq> length (params f) \<longrightarrow>
              GetFunctionParamSEScope f i
                = Inl (ParamsDoNotMatchArity (length arr) (length (params f))))
         \<and> (length arr = length (params f) \<longrightarrow>
              GetFunctionParamSEScope f i = Inr (arr ! i)))
      \<and> (param_se_scopes (attrs f) = None \<longrightarrow>
           GetFunctionParamSEScope f i = Inr FullyUnconstrained))"
  by (simp add: GetFunctionParamSEScope_def)

text \<open>C6 at concrete inputs, one for each of the four cases.\<close>

theorem GetFunctionParamSEScope_cases_witness:
  "GetFunctionParamSEScope
      (Function [''a'', ''b''] (VarNode ''a'' None)
         \<lparr>param_se_scopes = Some [SEScope ''cpu'' 0 None, SEScope ''accel'' 0 None],
          result_se_scope = Some FullyUnconstrained\<rparr> None) 1
     = Inr (SEScope ''accel'' 0 None)
   \<and> GetFunctionParamSEScope
      (Function [''a'', ''b''] (VarNode ''a'' None)
         \<lparr>param_se_scopes = Some [SEScope ''cpu'' 0 None, SEScope ''accel'' 0 None],
          result_se_scope = Some FullyUnconstrained\<rparr> None) 2
     = Inl (ParamIndexOutOfRange 2 2)
   \<and> GetFunctionParamSEScope
      (Function [''a'', ''b''] (VarNode ''a'' None)
         \<lparr>param_se_scopes = Some [SEScope ''cpu'' 0 None],
          result_se_scope = Some FullyUnconstrained\<rparr> None) 0
     = Inl (ParamsDoNotMatchArity 1 2)
   \<and> GetFunctionParamSEScope
      (Function [''a'', ''b''] (VarNode ''a'' None)
         \<lparr>param_se_scopes = None, result_se_scope = None\<rparr> None) 1
     = Inr FullyUnconstrained"
  using
    GetFunctionParamSEScope_cases [of
      "Function [''a'', ''b''] (VarNode ''a'' None)
         \<lparr>param_se_scopes = Some [SEScope ''cpu'' 0 None, SEScope ''accel'' 0 None],
          result_se_scope = Some FullyUnconstrained\<rparr> None" 1]
    GetFunctionParamSEScope_cases [of
      "Function [''a'', ''b''] (VarNode ''a'' None)
         \<lparr>param_se_scopes = Some [SEScope ''cpu'' 0 None, SEScope ''accel'' 0 None],
          result_se_scope = Some FullyUnconstrained\<rparr> None" 2]
    GetFunctionParamSEScope_cases [of
      "Function [''a'', ''b''] (VarNode ''a'' None)
         \<lparr>param_se_scopes = Some [SEScope ''cpu'' 0 None],
          result_se_scope = Some FullyUnconstrained\<rparr> None" 0]
    GetFunctionParamSEScope_cases [of
      "Function [''a'', ''b''] (VarNode ''a'' None)
         \<lparr>param_se_scopes = None, result_se_scope = None\<rparr> None" 1]
  by simp

text \<open>
  C9. What \<^verbatim>\<open>FunctionOnDevice\<close> attaches is read back exactly. The result scope reads
  back as the attached result scope, whatever it is. With an index below the arity and an
  attached list of the arity's length, the parameter scope reads back as the entry of the
  attached list at the index; with an index not below the arity the accessor fails with
  the index and the arity; with an index below the arity and an attached list of another
  length it fails with the two lengths. Attaching keeps the parameters, the body and the
  span of the function. In particular: after attaching the empty list and the fully
  unconstrained scope the result scope reads back as fully unconstrained; after attaching
  \<open>[A, B]\<close> and \<open>C\<close> to a function of two parameters, the result scope reads back as \<open>C\<close>,
  parameter 0 as \<open>A\<close>, parameter 1 as \<open>B\<close>, and parameter 2 fails with index 2 out of
  range for arity 2.
\<close>

theorem FunctionOnDevice_read_back:
  "GetFunctionResultSEScope (FunctionOnDevice f ps r) = r
   \<and> (i < length (params f) \<and> length ps = length (params f) \<longrightarrow>
        GetFunctionParamSEScope (FunctionOnDevice f ps r) i = Inr (ps ! i))
   \<and> (length (params f) \<le> i \<longrightarrow>
        GetFunctionParamSEScope (FunctionOnDevice f ps r) i
          = Inl (ParamIndexOutOfRange i (length (params f))))
   \<and> (i < length (params f) \<and> length ps \<noteq> length (params f) \<longrightarrow>
        GetFunctionParamSEScope (FunctionOnDevice f ps r) i
          = Inl (ParamsDoNotMatchArity (length ps) (length (params f))))
   \<and> params (FunctionOnDevice f ps r) = params f
   \<and> fbody (FunctionOnDevice f ps r) = fbody f
   \<and> fspan (FunctionOnDevice f ps r) = fspan f
   \<and> GetFunctionResultSEScope (FunctionOnDevice f [] FullyUnconstrained) = FullyUnconstrained
   \<and> (length (params g) = 2 \<longrightarrow>
        GetFunctionResultSEScope (FunctionOnDevice g [A, B] C) = C
      \<and> GetFunctionParamSEScope (FunctionOnDevice g [A, B] C) 0 = Inr A
      \<and> GetFunctionParamSEScope (FunctionOnDevice g [A, B] C) 1 = Inr B
      \<and> GetFunctionParamSEScope (FunctionOnDevice g [A, B] C) 2
          = Inl (ParamIndexOutOfRange 2 2))"
  by (simp add: GetFunctionResultSEScope_def GetFunctionParamSEScope_def FunctionOnDevice_def)

text \<open>
  C9 at concrete functions: a function of no parameters, and a function of two parameters
  with cpu and accel attached for the parameters and gpu for the result.
\<close>

theorem FunctionOnDevice_read_back_witness:
  "GetFunctionResultSEScope
      (FunctionOnDevice
         (Function [] (ConstantNode 0 None)
            \<lparr>param_se_scopes = None, result_se_scope = None\<rparr> None)
         [] FullyUnconstrained) = FullyUnconstrained
   \<and> length (params (Function [''a'', ''b''] (VarNode ''a'' None)
            \<lparr>param_se_scopes = None, result_se_scope = None\<rparr> None)) = 2
   \<and> GetFunctionResultSEScope
      (FunctionOnDevice
         (Function [''a'', ''b''] (VarNode ''a'' None)
            \<lparr>param_se_scopes = None, result_se_scope = None\<rparr> None)
         [SEScope ''cpu'' 0 None, SEScope ''accel'' 0 None] (SEScope ''gpu'' 1 None))
     = SEScope ''gpu'' 1 None
   \<and> GetFunctionParamSEScope
      (FunctionOnDevice
         (Function [''a'', ''b''] (VarNode ''a'' None)
            \<lparr>param_se_scopes = None, result_se_scope = None\<rparr> None)
         [SEScope ''cpu'' 0 None, SEScope ''accel'' 0 None] (SEScope ''gpu'' 1 None)) 0
     = Inr (SEScope ''cpu'' 0 None)
   \<and> GetFunctionParamSEScope
      (FunctionOnDevice
         (Function [''a'', ''b''] (VarNode ''a'' None)
            \<lparr>param_se_scopes = None, result_se_scope = None\<rparr> None)
         [SEScope ''cpu'' 0 None, SEScope ''accel'' 0 None] (SEScope ''gpu'' 1 None)) 1
     = Inr (SEScope ''accel'' 0 None)
   \<and> GetFunctionParamSEScope
      (FunctionOnDevice
         (Function [''a'', ''b''] (VarNode ''a'' None)
            \<lparr>param_se_scopes = None, result_se_scope = None\<rparr> None)
         [SEScope ''cpu'' 0 None, SEScope ''accel'' 0 None] (SEScope ''gpu'' 1 None)) 2
     = Inl (ParamIndexOutOfRange 2 2)
   \<and> GetFunctionParamSEScope
      (FunctionOnDevice
         (Function [''a'', ''b''] (VarNode ''a'' None)
            \<lparr>param_se_scopes = None, result_se_scope = None\<rparr> None)
         [SEScope ''cpu'' 0 None] (SEScope ''gpu'' 1 None)) 1
     = Inl (ParamsDoNotMatchArity 1 2)"
  using
    FunctionOnDevice_read_back [where
      f = "Function [] (ConstantNode 0 None)
             \<lparr>param_se_scopes = None, result_se_scope = None\<rparr> None"
      and g = "Function [''a'', ''b''] (VarNode ''a'' None)
             \<lparr>param_se_scopes = None, result_se_scope = None\<rparr> None"
      and A = "SEScope ''cpu'' 0 None" and B = "SEScope ''accel'' 0 None"
      and C = "SEScope ''gpu'' 1 None"]
    FunctionOnDevice_read_back [where
      f = "Function [''a'', ''b''] (VarNode ''a'' None)
             \<lparr>param_se_scopes = None, result_se_scope = None\<rparr> None"
      and ps = "[SEScope ''cpu'' 0 None]" and r = "SEScope ''gpu'' 1 None" and i = 1]
  by simp

end
